theory Spec2Isabelle
  imports Complex_Main "HOL-Library.AList"
begin

section \<open>The triage controller: forecast-and-assemble pipeline\<close>

text \<open>
  A shallow embedding of \<^verbatim>\<open>Backend/api/common/controller/TriageController.py\<close>.
  Every Python exception is a value of \<open>py_error\<close>; a function that can raise returns
  \<open>py_error + 'a\<close> with \<open>Inl\<close> for the exception. The two \<^verbatim>\<open>RuntimeError\<close>s the
  controller raises itself are told apart by their raise site.
\<close>

subsection \<open>Exceptions\<close>

datatype py_error =
    IndexError
  | ValueError
  | OverflowError
  | MissingHistoricYear  \<comment> \<open>\<^verbatim>\<open>RuntimeError('Could not find historic data year ...')\<close>\<close>
  | MissingModel         \<comment> \<open>\<^verbatim>\<open>RuntimeError('Could not find model for clinic ...')\<close>\<close>
  | UpstreamFailure      \<comment> \<open>an exception raised inside an external collaborator\<close>

definition bind_res :: "py_error + 'a \<Rightarrow> ('a \<Rightarrow> py_error + 'b) \<Rightarrow> py_error + 'b" where
  "bind_res r f = (case r of Inl e \<Rightarrow> Inl e | Inr x \<Rightarrow> f x)"

subsection \<open>Calendar dates (\<^verbatim>\<open>datetime\<close>, \<^verbatim>\<open>timedelta\<close>)\<close>

text \<open>
  A \<^verbatim>\<open>datetime\<close> at midnight is its calendar date in the proleptic Gregorian calendar,
  years 1 to 9999. Adding a \<^verbatim>\<open>timedelta\<close> that leaves this range raises
  \<^verbatim>\<open>OverflowError\<close>.
\<close>

record date =
  year :: int
  month :: int
  day :: int

definition is_leap :: "int \<Rightarrow> bool" where
  "is_leap y = (y mod 4 = 0 \<and> (y mod 100 \<noteq> 0 \<or> y mod 400 = 0))"

definition days_in_month :: "int \<Rightarrow> int \<Rightarrow> int" where
  "days_in_month y m =
     (if m = 2 then (if is_leap y then 29 else 28)
      else if m = 4 \<or> m = 6 \<or> m = 9 \<or> m = 11 then 30 else 31)"

definition MINYEAR :: int where "MINYEAR = 1"
definition MAXYEAR :: int where "MAXYEAR = 9999"

definition valid_date :: "date \<Rightarrow> bool" where
  "valid_date d =
     (MINYEAR \<le> year d \<and> year d \<le> MAXYEAR \<and> 1 \<le> month d \<and> month d \<le> 12 \<and>
      1 \<le> day d \<and> day d \<le> days_in_month (year d) (month d))"

definition next_day :: "date \<Rightarrow> py_error + date" where
  "next_day d =
     (if day d < days_in_month (year d) (month d) then Inr (d\<lparr>day := day d + 1\<rparr>)
      else if month d < 12 then Inr (d\<lparr>month := month d + 1, day := 1\<rparr>)
      else if year d < MAXYEAR then Inr \<lparr>year = year d + 1, month = 1, day = 1\<rparr>
      else Inl OverflowError)"

definition prev_day :: "date \<Rightarrow> py_error + date" where
  "prev_day d =
     (if 1 < day d then Inr (d\<lparr>day := day d - 1\<rparr>)
      else if 1 < month d
        then Inr (d\<lparr>month := month d - 1, day := days_in_month (year d) (month d - 1)\<rparr>)
      else if MINYEAR < year d then Inr \<lparr>year = year d - 1, month = 12, day = 31\<rparr>
      else Inl OverflowError)"

text \<open>\<^verbatim>\<open>d + timedelta(days=n)\<close> and \<^verbatim>\<open>d - timedelta(days=n)\<close> for \<open>n \<ge> 0\<close>.\<close>

fun add_days :: "date \<Rightarrow> nat \<Rightarrow> py_error + date" where
  "add_days d 0 = Inr d"
| "add_days d (Suc n) = bind_res (next_day d) (\<lambda>d'. add_days d' n)"

fun sub_days :: "date \<Rightarrow> nat \<Rightarrow> py_error + date" where
  "sub_days d 0 = Inr d"
| "sub_days d (Suc n) = bind_res (prev_day d) (\<lambda>d'. sub_days d' n)"

text \<open>\<^verbatim>\<open>d.toordinal()\<close>: the day count since 0001-01-01 (which has ordinal 1).\<close>

definition days_before_year :: "int \<Rightarrow> int" where
  "days_before_year y = (y - 1) * 365 + (y - 1) div 4 - (y - 1) div 100 + (y - 1) div 400"

definition days_before_month :: "int \<Rightarrow> int \<Rightarrow> int" where
  "days_before_month y m = sum_list (map (days_in_month y) [1..m - 1])"

definition toordinal :: "date \<Rightarrow> int" where
  "toordinal d = days_before_year (year d) + days_before_month (year d) (month d) + day d"

text \<open>\<^verbatim>\<open>(e - s).days\<close>\<close>

definition days_between :: "date \<Rightarrow> date \<Rightarrow> int" where
  "days_between e s = toordinal e - toordinal s"

text \<open>\<^verbatim>\<open>d.replace(year=y)\<close> raises \<^verbatim>\<open>ValueError\<close> when the result is no date.\<close>

definition replace_year :: "date \<Rightarrow> int \<Rightarrow> py_error + date" where
  "replace_year d y = (if valid_date (d\<lparr>year := y\<rparr>) then Inr (d\<lparr>year := y\<rparr>) else Inl ValueError)"

text \<open>
  \<^verbatim>\<open>d.strftime('%Y-%m-%d')\<close>, as the C library prints it: the year in decimal with no
  padding (\<^verbatim>\<open>'999-12-31'\<close>, \<^verbatim>\<open>'5-01-01'\<close>), the month and the day in two digits.
\<close>

definition digit_char :: "nat \<Rightarrow> char" where
  "digit_char n = ''0123456789'' ! (n mod 10)"

function decimal :: "nat \<Rightarrow> string" where
  "decimal n = (if n < 10 then [digit_char n] else decimal (n div 10) @ [digit_char n])"
  by pat_completeness auto
termination
  by (relation "measure (\<lambda>n. n)") auto

declare decimal.simps [simp del]

definition strftime :: "date \<Rightarrow> string" where
  "strftime d =
     (let m = nat (month d); dd = nat (day d)
      in decimal (nat (year d))
         @ [CHR ''-'', digit_char (m div 10), digit_char m,
            CHR ''-'', digit_char (dd div 10), digit_char dd])"

subsection \<open>Floats and sequences\<close>

text \<open>
  A float is a real number or one of the three special values. \<^verbatim>\<open>int(x)\<close> truncates a
  finite float toward zero and raises on the others.
\<close>

datatype npfloat = Finite real | NaN | PosInf | NegInf

definition py_int :: "npfloat \<Rightarrow> py_error + int" where
  "py_int x =
     (case x of
        Finite r \<Rightarrow> Inr (if 0 \<le> r then \<lfloor>r\<rfloor> else \<lceil>r\<rceil>)
      | NaN \<Rightarrow> Inl ValueError
      | PosInf \<Rightarrow> Inl OverflowError
      | NegInf \<Rightarrow> Inl OverflowError)"

text \<open>
  \<^verbatim>\<open>a[i]\<close> and \<^verbatim>\<open>a[i] = v\<close> with an integer \<open>i\<close>, on a Python list and along the first axis
  of an array alike: a negative index counts from the end, an index outside \<open>[-n, n)\<close>
  raises \<^verbatim>\<open>IndexError\<close>.
\<close>

definition py_index :: "int \<Rightarrow> nat \<Rightarrow> py_error + nat" where
  "py_index i n =
     (let j = (if i < 0 then int n + i else i)
      in if 0 \<le> j \<and> j < int n then Inr (nat j) else Inl IndexError)"

definition getitem :: "'a list \<Rightarrow> int \<Rightarrow> py_error + 'a" where
  "getitem a i = bind_res (py_index i (length a)) (\<lambda>j. Inr (a ! j))"

definition setitem :: "'a list \<Rightarrow> int \<Rightarrow> 'a \<Rightarrow> py_error + 'a list" where
  "setitem a i v = bind_res (py_index i (length a)) (\<lambda>j. Inr (a[j := v]))"

text \<open>\<^verbatim>\<open>xs[i:]\<close> on a Python list: never raises, clamps the start.\<close>

definition py_slice_from :: "int \<Rightarrow> 'a list \<Rightarrow> 'a list" where
  "py_slice_from i xs =
     (let n = int (length xs); s = (if i < 0 then max (n + i) 0 else min i n)
      in drop (nat s) xs)"

subsection \<open>\<^verbatim>\<open>get_predictions\<close>\<close>

text \<open>
  The model object is its \<^verbatim>\<open>predict\<close> method: from the window and the calendar feature
  to a two-dimensional array, or \<open>None\<close> when the call raises.
\<close>

type_synonym keras_model = "int list \<Rightarrow> real list \<Rightarrow> npfloat list list option"

text \<open>
  Lines 184 to 186:
  \<^verbatim>\<open>one_hot_date = np.zeros(12 + 31); one_hot_date[date.month] = 1; one_hot_date[12 + date.day] = 1\<close>
\<close>

definition one_hot_date :: "date \<Rightarrow> py_error + real list" where
  "one_hot_date d =
     bind_res (setitem (replicate (12 + 31) 0) (month d) 1)
       (\<lambda>a. setitem a (12 + day d) 1)"

text \<open>One pass of the loop body, on the pair of the window and the predictions so far.\<close>

definition gp_body ::
  "keras_model \<Rightarrow> date \<Rightarrow> int list \<times> npfloat list list \<Rightarrow> nat
     \<Rightarrow> py_error + (int list \<times> npfloat list list)" where
  "gp_body model start_date st offset =
     (case st of (data, predictions) \<Rightarrow>
        bind_res (add_days start_date offset) (\<lambda>date.
        bind_res (one_hot_date date) (\<lambda>one_hot.
        bind_res (case model data one_hot of None \<Rightarrow> Inl UpstreamFailure | Some p \<Rightarrow> Inr p)
          (\<lambda>prediction.
        bind_res (getitem prediction 0) (\<lambda>row.
        bind_res (getitem row 0) (\<lambda>x.
        bind_res (py_int x) (\<lambda>v.
        Inr (py_slice_from 1 data @ [v], predictions @ [row]))))))))"

fun gp_loop ::
  "keras_model \<Rightarrow> date \<Rightarrow> int list \<times> npfloat list list \<Rightarrow> nat list
     \<Rightarrow> py_error + (int list \<times> npfloat list list)" where
  "gp_loop model start_date st [] = Inr st"
| "gp_loop model start_date st (offset # offsets) =
     bind_res (gp_body model start_date st offset)
       (\<lambda>st'. gp_loop model start_date st' offsets)"

definition get_predictions ::
  "keras_model \<Rightarrow> int list \<Rightarrow> date \<Rightarrow> int \<Rightarrow> py_error + npfloat list list" where
  "get_predictions model data start_date prediction_length =
     bind_res (gp_loop model start_date (data, []) [0..<nat prediction_length])
       (\<lambda>st. Inr (snd st))"

subsection \<open>\<^verbatim>\<open>sort_referral_data\<close>\<close>

text \<open>
  A referral is a row of the historic data; the source reads only \<^verbatim>\<open>referral[2]\<close>, the
  date the referral was received, and compares it with \<^verbatim>\<open>'%Y-%m-%d'\<close> strings.
\<close>

type_synonym referral = "int \<times> int \<times> string \<times> string"

definition received :: "referral \<Rightarrow> string" where
  "received referral = fst (snd (snd referral))"

text \<open>\<^verbatim>\<open>Counter(iterable)\<close>: the dictionary from each element to its number of occurrences.\<close>

definition Counter :: "'k list \<Rightarrow> ('k \<rightharpoonup> int)" where
  "Counter ks = foldl (\<lambda>c k. c(k \<mapsto> (case c k of None \<Rightarrow> 1 | Some n \<Rightarrow> n + 1))) Map.empty ks"

fun sequence_res :: "(py_error + 'a) list \<Rightarrow> py_error + 'a list" where
  "sequence_res [] = Inr []"
| "sequence_res (r # rs) = bind_res r (\<lambda>x. bind_res (sequence_res rs) (\<lambda>xs. Inr (x # xs)))"

definition date_list :: "date \<Rightarrow> int \<Rightarrow> py_error + string list" where
  "date_list start_date interval_length =
     sequence_res (map (\<lambda>offset. bind_res (add_days start_date offset) (\<lambda>d. Inr (strftime d)))
                       [0..<nat interval_length])"

definition sort_referral_data :: "referral list \<Rightarrow> date \<Rightarrow> int \<Rightarrow> py_error + int list" where
  "sort_referral_data referral_data start_date interval_length =
     bind_res (date_list start_date interval_length) (\<lambda>dates.
       let counted_data = Counter (map received referral_data)
       in Inr (map (\<lambda>date. case counted_data date of Some n \<Rightarrow> n | None \<Rightarrow> 0) dates))"

subsection \<open>The controller, its collaborators and their effects\<close>

definition ML_PADDING_LENGTH :: int where "ML_PADDING_LENGTH = 30"
definition SIM_PADDING_LENGTH :: int where "SIM_PADDING_LENGTH = 7"

record controller =
  clinic_id :: int
  intervals :: "(string \<times> string) list"
  confidence :: real
  num_sim_runs :: int

text \<open>A triage class is a dictionary with the keys the controller reads.\<close>

record triage_class =
  name :: string
  severity :: int
  duration :: int
  proportion :: real

record prediction_result =
  slots :: int
  pr_start_date :: string
  pr_end_date :: string

type_synonym response = "(string \<times> prediction_result list) list"

text \<open>
  An entry of the series handed to the simulation is either one of the controller's own
  two-element lists \<^verbatim>\<open>[arrivals, 0]\<close> and \<^verbatim>\<open>[0, 0]\<close>, or a row of a model output.
\<close>

datatype series_entry = IntPair int int | NdRow "npfloat list"

text \<open>
  Modelled from the spec: the class \<^verbatim>\<open>DataFrame\<close> of \<^verbatim>\<open>api.common.controller.DataFrame\<close> is
  not in the sources; the record holds the three arguments of its constructor.
\<close>

record data_frame =
  df_intervals :: "(string \<times> string) list"
  df_data :: "series_entry list"
  df_padding :: "int \<times> int"

text \<open>The keyword arguments of \<^verbatim>\<open>gen_min_interval_slots\<close> (the queue is a fresh empty deque).\<close>

record sim_args =
  sa_data_frame :: data_frame
  sa_window :: int
  sa_min_ratio :: real
  sa_final_window :: int
  sa_confidence :: real
  sa_start :: int
  sa_end :: int
  sa_num_sim_runs :: int

text \<open>
  The collaborators outside the controller. Each returns \<open>None\<close> when it raises.
  \<^item> \<open>strptime\<close>: \<^verbatim>\<open>datetime.strptime(s, '%Y-%m-%d')\<close>;
  \<^item> \<open>select_year month day\<close>: the rows of the query of \<^verbatim>\<open>get_historic_data_year\<close>, each row its
    one column;
  \<^item> \<open>clinic_settings clinic_id\<close>: \<^verbatim>\<open>ClinicData(clinic_id).clinic_settings\<close>;
  \<^item> \<open>get_referral_data clinic_id severity interval\<close>: \<^verbatim>\<open>ClinicData.get_referral_data\<close>;
  \<^item> \<open>select_models clinic_id severity in_use\<close>: the rows of the query of \<^verbatim>\<open>get_model\<close>, each row
    its one column \<^verbatim>\<open>file_path\<close>;
  \<^item> \<open>load_model\<close>: \<^verbatim>\<open>tf.keras.models.load_model\<close>;
  \<^item> \<open>gen_min_interval_slots\<close>: the simulation, each result its \<^verbatim>\<open>expected_slots\<close>.
\<close>

record env =
  strptime :: "string \<Rightarrow> date option"
  select_year :: "int \<Rightarrow> int \<Rightarrow> int list option"
  clinic_settings :: "int \<Rightarrow> triage_class list option"
  get_referral_data :: "int \<Rightarrow> int \<Rightarrow> date \<times> date \<Rightarrow> referral list option"
  select_models :: "int \<Rightarrow> int \<Rightarrow> bool \<Rightarrow> string list option"
  load_model :: "string \<Rightarrow> keras_model option"
  gen_min_interval_slots :: "sim_args \<Rightarrow> int list option"

text \<open>The calls that leave the controller, in the order they are made.\<close>

datatype event =
    DbSelectYear int int
  | ClinicDataInit int
  | GetReferralData int int "date \<times> date"
  | DbSelectModel int int
  | LoadModel string
  | GenMinIntervalSlots
  | Print response

type_synonym 'a io = "event list \<Rightarrow> (py_error + 'a) \<times> event list"

definition io_return :: "'a \<Rightarrow> 'a io" where
  "io_return x = (\<lambda>log. (Inr x, log))"

definition io_raise :: "py_error \<Rightarrow> 'a io" where
  "io_raise e = (\<lambda>log. (Inl e, log))"

definition io_bind :: "'a io \<Rightarrow> ('a \<Rightarrow> 'b io) \<Rightarrow> 'b io" where
  "io_bind m f = (\<lambda>log. case m log of (Inl e, log') \<Rightarrow> (Inl e, log') | (Inr x, log') \<Rightarrow> f x log')"

definition io_lift :: "py_error + 'a \<Rightarrow> 'a io" where
  "io_lift r = (\<lambda>log. (r, log))"

definition io_call :: "event \<Rightarrow> 'a option \<Rightarrow> 'a io" where
  "io_call ev r = (\<lambda>log. (case r of None \<Rightarrow> Inl UpstreamFailure | Some x \<Rightarrow> Inr x, log @ [ev]))"

definition parse_date :: "env \<Rightarrow> string \<Rightarrow> py_error + date" where
  "parse_date env s = (case strptime env s of None \<Rightarrow> Inl ValueError | Some d \<Rightarrow> Inr d)"

subsection \<open>\<^verbatim>\<open>get_historic_data_year\<close> and \<^verbatim>\<open>get_model\<close>\<close>

definition get_historic_data_year :: "env \<Rightarrow> string \<Rightarrow> int io" where
  "get_historic_data_year env start_date =
     io_bind (io_lift (parse_date env start_date)) (\<lambda>d1.
     io_bind (io_lift (parse_date env start_date)) (\<lambda>d2.
     io_bind (io_call (DbSelectYear (month d1) (day d2)) (select_year env (month d1) (day d2)))
       (\<lambda>year_rows.
     if int (length year_rows) \<noteq> 1 then io_raise MissingHistoricYear
     else io_lift (getitem year_rows 0))))"

definition get_model :: "env \<Rightarrow> int \<Rightarrow> triage_class \<Rightarrow> keras_model io" where
  "get_model env cid triage_class =
     io_bind (io_call (DbSelectModel cid (severity triage_class))
                (select_models env cid (severity triage_class) True)) (\<lambda>rows.
     if int (length rows) = 0 then io_raise MissingModel
     else io_bind (io_lift (getitem rows 0)) (\<lambda>file_path.
          io_call (LoadModel file_path) (load_model env file_path)))"

subsection \<open>\<^verbatim>\<open>predict\<close>\<close>

text \<open>Lines 100 to 102: the padding, the series and the frame built from them.\<close>

definition data_frame_data :: "int list \<Rightarrow> npfloat list list \<Rightarrow> series_entry list" where
  "data_frame_data sorted_referral_data predictions =
     (let padding = map (\<lambda>arrivals. IntPair arrivals 0)
                        (py_slice_from (- SIM_PADDING_LENGTH) sorted_referral_data)
      in padding @ map NdRow predictions @ [IntPair 0 0])"

definition build_data_frame ::
  "(string \<times> string) list \<Rightarrow> int list \<Rightarrow> npfloat list list \<Rightarrow> data_frame" where
  "build_data_frame ivs sorted_referral_data predictions =
     \<lparr>df_intervals = ivs,
      df_data = data_frame_data sorted_referral_data predictions,
      df_padding = (SIM_PADDING_LENGTH, 0)\<rparr>"

text \<open>The body of the loop over the triage classes, lines 87 to 121.\<close>

definition predict_class ::
  "env \<Rightarrow> controller \<Rightarrow> date \<Rightarrow> int \<Rightarrow> date \<times> date \<Rightarrow> int \<Rightarrow> response \<Rightarrow> triage_class
     \<Rightarrow> response io" where
  "predict_class env self prediction_start_date prediction_interval_length
       historic_data_interval historic_data_interval_length response tc =
     io_bind (io_call (GetReferralData (clinic_id self) (severity tc) historic_data_interval)
                (get_referral_data env (clinic_id self) (severity tc) historic_data_interval))
       (\<lambda>historic_data.
     io_bind (io_lift (sort_referral_data historic_data (fst historic_data_interval)
                         historic_data_interval_length)) (\<lambda>sorted_referral_data.
     io_bind (get_model env (clinic_id self) tc) (\<lambda>model.
     io_bind (io_lift (get_predictions model
                         (py_slice_from (- ML_PADDING_LENGTH) sorted_referral_data)
                         prediction_start_date prediction_interval_length)) (\<lambda>predictions.
     io_bind (io_call GenMinIntervalSlots
                (gen_min_interval_slots env
                   \<lparr>sa_data_frame = build_data_frame (intervals self) sorted_referral_data predictions,
                    sa_window = duration tc * 7,
                    sa_min_ratio = proportion tc,
                    sa_final_window = duration tc * 14,
                    sa_confidence = confidence self,
                    sa_start = 0,
                    sa_end = int (length (intervals self)) - 1,
                    sa_num_sim_runs = num_sim_runs self\<rparr>)) (\<lambda>sim_results.
     let sim_result_formatted =
           map (\<lambda>sim_result. \<lparr>slots = fst sim_result,
                               pr_start_date = fst (snd sim_result),
                               pr_end_date = snd (snd sim_result)\<rparr>)
               (zip sim_results (intervals self));
         response' = AList.update (name tc) sim_result_formatted response
     in io_bind (io_call (Print response') (Some ())) (\<lambda>_. io_return response'))))))"

fun predict_classes ::
  "env \<Rightarrow> controller \<Rightarrow> date \<Rightarrow> int \<Rightarrow> date \<times> date \<Rightarrow> int \<Rightarrow> response \<Rightarrow> triage_class list
     \<Rightarrow> response io" where
  "predict_classes env self psd pil hdi hdil response [] = io_return response"
| "predict_classes env self psd pil hdi hdil response (tc # tcs) =
     io_bind (predict_class env self psd pil hdi hdil response tc)
       (\<lambda>response'. predict_classes env self psd pil hdi hdil response' tcs)"

text \<open>
  Lines 71 to 83, before the loop: the start of the forecast, its length in days, the
  interval of historic data, its length, and the triage classes of the clinic.
\<close>

definition predict_setup ::
  "env \<Rightarrow> controller \<Rightarrow> (date \<times> int \<times> (date \<times> date) \<times> int \<times> triage_class list) io" where
  "predict_setup env self =
     io_bind (io_lift (getitem (intervals self) 0)) (\<lambda>first_interval.
     io_bind (io_lift (parse_date env (fst first_interval))) (\<lambda>prediction_start_date.
     io_bind (io_lift (getitem (intervals self) (- 1))) (\<lambda>last_interval.
     io_bind (io_lift (parse_date env (snd last_interval))) (\<lambda>prediction_end_date.
     let prediction_interval_length = days_between prediction_end_date prediction_start_date + 1;
         historic_data_interval_length = max ML_PADDING_LENGTH SIM_PADDING_LENGTH
     in
     io_bind (get_historic_data_year env (fst first_interval)) (\<lambda>desired_historic_data_year.
     io_bind (io_lift (bind_res (parse_date env (fst first_interval))
                         (\<lambda>d. replace_year d desired_historic_data_year)))
       (\<lambda>historic_data_end_date.
     io_bind (io_lift (sub_days historic_data_end_date (nat historic_data_interval_length)))
       (\<lambda>historic_data_start_date.
     io_bind (io_call (ClinicDataInit (clinic_id self)) (clinic_settings env (clinic_id self)))
       (\<lambda>settings.
     io_return (prediction_start_date, prediction_interval_length,
                (historic_data_start_date, historic_data_end_date),
                historic_data_interval_length, settings)))))))))"

definition predict :: "env \<Rightarrow> controller \<Rightarrow> response io" where
  "predict env self =
     io_bind (predict_setup env self)
       (\<lambda>(prediction_start_date, prediction_interval_length, historic_data_interval,
           historic_data_interval_length, settings).
          predict_classes env self prediction_start_date prediction_interval_length
            historic_data_interval historic_data_interval_length [] settings)"

section \<open>Example inputs\<close>

text \<open>
  A stand-in for a trained model: it predicts half the sum of the window and emits 7 on a
  second output channel, whatever the calendar feature.
\<close>

definition stub_model :: keras_model where
  "stub_model w one_hot = Some [[Finite (real_of_int (sum_list w) / 2), Finite 7]]"

definition feb_27 :: date where
  "feb_27 = \<lparr>year = 2021, month = 2, day = 27\<rparr>"

definition jan_31 :: date where
  "jan_31 = \<lparr>year = 2021, month = 1, day = 31\<rparr>"

text \<open>The seven days of history of the end-to-end scenario.\<close>

definition week_counts :: "int list" where
  "week_counts = [2, 3, 1, 0, 2, 4, 1]"

text \<open>
  A clinic with two triage classes. Two models are registered and in use for the first
  class, none for the second.
\<close>

definition urgent :: triage_class where
  "urgent = \<lparr>name = ''urgent'', severity = 1, duration = 2, proportion = 9 / 10\<rparr>"

definition routine :: triage_class where
  "routine = \<lparr>name = ''routine'', severity = 2, duration = 4, proportion = 8 / 10\<rparr>"

definition example_strptime :: "string \<Rightarrow> date option" where
  "example_strptime s =
     (if s = ''2021-02-27'' then Some feb_27
      else if s = ''2021-02-28'' then Some \<lparr>year = 2021, month = 2, day = 28\<rparr>
      else None)"

definition example_referrals :: "referral list" where
  "example_referrals =
     [(1, 1, ''2020-02-20'', ''2020-03-02''),
      (1, 1, ''2020-02-26'', ''2020-03-05''),
      (1, 1, ''2020-02-26'', ''2020-03-09'')]"

definition example_select_models :: "int \<Rightarrow> int \<Rightarrow> bool \<Rightarrow> string list option" where
  "example_select_models cid sev in_use =
     Some (if cid = 1 \<and> sev = 1 \<and> in_use then [''urgent_a.h5'', ''urgent_b.h5''] else [])"

text \<open>The thirty days of history before 27 February 2020.\<close>

definition example_interval :: "date \<times> date" where
  "example_interval = (\<lparr>year = 2020, month = 1, day = 28\<rparr>, \<lparr>year = 2020, month = 2, day = 27\<rparr>)"

definition example_env :: env where
  "example_env =
     \<lparr>strptime = example_strptime,
      select_year = (\<lambda>m d. Some [2020]),
      clinic_settings = (\<lambda>cid. Some [urgent, routine]),
      get_referral_data = (\<lambda>cid sev interval. Some example_referrals),
      select_models = example_select_models,
      load_model = (\<lambda>file_path. Some stub_model),
      gen_min_interval_slots = (\<lambda>args. Some [4])\<rparr>"

definition example_controller :: controller where
  "example_controller =
     \<lparr>clinic_id = 1, intervals = [(''2021-02-27'', ''2021-02-28'')],
      confidence = 95 / 100, num_sim_runs = 10\<rparr>"

section \<open>Properties\<close>

subsection \<open>Results and sequences\<close>

lemma bind_res_simps [simp]:
  "bind_res (Inl e) f = Inl e"
  "bind_res (Inr x) f = f x"
  by (simp_all add: bind_res_def)

lemma bind_res_Inr_iff:
  "bind_res r f = Inr y \<longleftrightarrow> (\<exists>x. r = Inr x \<and> f x = Inr y)"
  by (cases r) simp_all

lemma py_slice_from_1: "py_slice_from 1 xs = drop 1 xs"
  by (cases xs) (simp_all add: py_slice_from_def Let_def)

lemma py_slice_from_neg:
  "0 < n \<Longrightarrow> py_slice_from (- n) xs = drop (length xs - nat n) xs"
  by (auto simp: py_slice_from_def Let_def max_def nat_diff_distrib' intro: arg_cong2[where f=drop])

subsection \<open>The calendar feature\<close>

lemma one_hot_date_ok:
  assumes "1 \<le> month d" "month d \<le> 12" "1 \<le> day d" "day d \<le> 30"
  shows "one_hot_date d = Inr ((replicate 43 0)[nat (month d) := 1, nat (12 + day d) := 1])"
  using assms by (simp add: one_hot_date_def setitem_def py_index_def)

lemma one_hot_date_day_31:
  "day d = 31 \<Longrightarrow> 1 \<le> month d \<Longrightarrow> month d \<le> 12 \<Longrightarrow> one_hot_date d = Inl IndexError"
  by (simp add: one_hot_date_def setitem_def py_index_def)

lemma one_hot_date_december:
  "one_hot_date \<lparr>year = 2021, month = 12, day = 5\<rparr> = Inr v
     \<Longrightarrow> take 12 v = replicate 12 0 \<and> v ! 12 = 1"
  by (auto simp add: one_hot_date_def setitem_def py_index_def numeral_eq_Suc)

text \<open>
  Claim C1. The calendar feature of a forecast day should be a 43-wide vector with a 1 in
  the month's slot among the first 12 positions and a 1 in the day's slot among the last
  31. The source indexes the zero-based vector with the one-based month and with
  \<open>12 + day\<close>: the month slots are shifted by one (December lands on position 12, the first
  day slot, see \<open>one_hot_date_december\<close>), and on the 31st of a month the index is 43, one
  past the end, so no feature is built at all.
\<close>

theorem one_hot_date_jan_31:
  "one_hot_date jan_31 = Inl IndexError"
  by (simp add: jan_31_def one_hot_date_def setitem_def py_index_def)

subsection \<open>The forecast loop\<close>

lemma gp_loop_append:
  "gp_loop m s st (xs @ ys) = bind_res (gp_loop m s st xs) (\<lambda>st'. gp_loop m s st' ys)"
proof (induction xs arbitrary: st)
  case Nil
  show ?case by simp
next
  case (Cons x xs)
  show ?case
    by (cases "gp_body m s st x") (simp_all add: Cons.IH)
qed

lemma gp_body_Inr:
  assumes "gp_body m s (w, ps) i = Inr (w', ps')"
  shows "\<exists>d oh p row x v. add_days s i = Inr d \<and> one_hot_date d = Inr oh \<and> m w oh = Some p \<and>
           getitem p 0 = Inr row \<and> getitem row 0 = Inr x \<and> py_int x = Inr v \<and>
           w' = drop 1 w @ [v] \<and> ps' = ps @ [row]"
  using assms
  by (auto simp: gp_body_def bind_res_Inr_iff py_slice_from_1 split: option.splits)

lemma gp_loop_predictions:
  "gp_loop m s (w, ps) xs = Inr (w', ps') \<Longrightarrow>
     \<exists>qs. ps' = ps @ qs \<and> length qs = length xs"
proof (induction xs arbitrary: w ps)
  case Nil
  then show ?case by simp
next
  case (Cons i xs)
  from Cons.prems obtain w1 ps1 where
    b: "gp_body m s (w, ps) i = Inr (w1, ps1)" and
    l: "gp_loop m s (w1, ps1) xs = Inr (w', ps')"
    by (auto simp: bind_res_Inr_iff)
  from gp_body_Inr[OF b] obtain row where "ps1 = ps @ [row]" by blast
  with Cons.IH[OF l] show ?case by auto
qed

lemma gp_loop_window_length:
  "gp_loop m s (w, ps) xs = Inr (w', ps') \<Longrightarrow> w \<noteq> [] \<Longrightarrow> length w' = length w"
proof (induction xs arbitrary: w ps)
  case Nil
  then show ?case by simp
next
  case (Cons i xs)
  from Cons.prems obtain w1 ps1 where
    b: "gp_body m s (w, ps) i = Inr (w1, ps1)" and
    l: "gp_loop m s (w1, ps1) xs = Inr (w', ps')"
    by (auto simp: bind_res_Inr_iff)
  from gp_body_Inr[OF b] obtain v where w1: "w1 = drop 1 w @ [v]" by blast
  with Cons.prems(2) have "w1 \<noteq> []" "length w1 = length w"
    by (cases w; simp)+
  with Cons.IH[OF l] show ?case by simp
qed

lemma gp_loop_prefix:
  assumes "gp_loop m s st [0..<n] = Inr st'" and "i \<le> n"
  shows "\<exists>st1. gp_loop m s st [0..<i] = Inr st1 \<and> gp_loop m s st1 [i..<n] = Inr st'"
proof -
  from assms(2) have "[0..<n] = [0..<i] @ [i..<n]"
    by (metis le_add_diff_inverse upt_add_eq_append zero_le)
  with assms(1) show ?thesis
    by (simp add: gp_loop_append bind_res_Inr_iff)
qed

text \<open>
  Claim C8. The forecast driver should return exactly \<open>H\<close> predictions for every horizon,
  seed window and scoring function. A horizon of one day that starts on 31 January returns
  none, for every model and every window: building the calendar feature of that day raises
  \<^verbatim>\<open>IndexError\<close> (the slip of claim C1) before the model is called.
\<close>

theorem get_predictions_jan_31:
  "get_predictions model data jan_31 1 = Inl IndexError"
  by (simp add: jan_31_def get_predictions_def gp_body_def one_hot_date_def setitem_def
        py_index_def)

text \<open>
  Claim C6. Let \<open>w\<close> be the window with which pass \<open>i\<close> of the loop starts and \<open>w'\<close> the window
  with which pass \<open>i + 1\<close> starts. Then pass \<open>i\<close> called the model on \<open>w\<close>, and \<open>w'\<close> is \<open>w\<close> without
  its first entry, followed by the first component of the first row of the model's output,
  truncated to an integer. A seed window that is not empty keeps its length in every pass.
\<close>

theorem window_slides:
  assumes "gp_loop model start_date (data, []) [0..<i] = Inr (w, ps)"
      and "gp_loop model start_date (data, []) [0..<Suc i] = Inr (w', ps')"
  shows "\<exists>d one_hot prediction row x v.
           add_days start_date i = Inr d \<and> one_hot_date d = Inr one_hot \<and>
           model w one_hot = Some prediction \<and>
           getitem prediction 0 = Inr row \<and> getitem row 0 = Inr x \<and> py_int x = Inr v \<and>
           w' = drop 1 w @ [v] \<and> ps' = ps @ [row] \<and>
           (data \<noteq> [] \<longrightarrow> length w = length data \<and> length w' = length data)"
proof -
  from assms have b: "gp_body model start_date (w, ps) i = Inr (w', ps')"
    by (simp add: gp_loop_append bind_res_Inr_iff)
  from gp_body_Inr[OF b] obtain d one_hot prediction row x v where
    *: "add_days start_date i = Inr d" "one_hot_date d = Inr one_hot"
       "model w one_hot = Some prediction" "getitem prediction 0 = Inr row"
       "getitem row 0 = Inr x" "py_int x = Inr v" "w' = drop 1 w @ [v]" "ps' = ps @ [row]"
    by blast
  have "data \<noteq> [] \<longrightarrow> length w = length data \<and> length w' = length data"
    using gp_loop_window_length[OF assms(1)] gp_loop_window_length[OF assms(2)] by simp
  with * show ?thesis by blast
qed

theorem window_slides_witness:
  "gp_loop stub_model feb_27 ([2, 3, 1], []) [0..<1] = Inr ([3, 1, 3], [[Finite 3, Finite 7]])
   \<and> gp_loop stub_model feb_27 ([2, 3, 1], []) [0..<Suc 1]
       = Inr ([1, 3, 3], [[Finite 3, Finite 7], [Finite (7 / 2), Finite 7]])
   \<and> (\<exists>d one_hot prediction row x v.
           add_days feb_27 1 = Inr d \<and> one_hot_date d = Inr one_hot \<and>
           stub_model [3, 1, 3] one_hot = Some prediction \<and>
           getitem prediction 0 = Inr row \<and> getitem row 0 = Inr x \<and> py_int x = Inr v \<and>
           [1, 3, 3] = drop 1 [3, 1, 3] @ [v] \<and>
           [[Finite 3, Finite 7], [Finite (7 / 2), Finite 7]] = [[Finite 3, Finite 7]] @ [row] \<and>
           ([2, 3, 1] \<noteq> ([] :: int list) \<longrightarrow>
              length [3, 1, 3 :: int] = length [2, 3, 1 :: int] \<and>
              length [1, 3, 3 :: int] = length [2, 3, 1 :: int]))"
proof -
  have h1: "gp_loop stub_model feb_27 ([2, 3, 1], []) [0..<1]
              = Inr ([3, 1, 3], [[Finite 3, Finite 7]])"
    by (simp add: gp_body_def stub_model_def feb_27_def one_hot_date_ok getitem_def
          py_index_def py_int_def py_slice_from_1)
  have h2: "gp_loop stub_model feb_27 ([2, 3, 1], []) [0..<Suc 1]
              = Inr ([1, 3, 3], [[Finite 3, Finite 7], [Finite (7 / 2), Finite 7]])"
    by (simp add: gp_body_def stub_model_def feb_27_def one_hot_date_ok getitem_def
          py_index_def py_int_def py_slice_from_1 next_day_def days_in_month_def is_leap_def)
  from window_slides[OF h1 h2] h1 h2 show ?thesis by blast
qed

lemma get_predictions_Inr:
  "get_predictions m data s H = Inr ps \<longleftrightarrow> (\<exists>w. gp_loop m s (data, []) [0..<nat H] = Inr (w, ps))"
  by (auto simp: get_predictions_def bind_res_Inr_iff)

lemma get_predictions_length:
  "get_predictions m data s H = Inr ps \<Longrightarrow> length ps = nat H"
  using gp_loop_predictions by (fastforce simp: get_predictions_Inr)







subsection \<open>The assembled series\<close>

lemma data_frame_data_eq:
  "SIM_PADDING_LENGTH \<le> int (length srd) \<Longrightarrow>
   data_frame_data srd predictions =
     map (\<lambda>arrivals. IntPair arrivals 0) (drop (length srd - 7) srd)
       @ map NdRow predictions @ [IntPair 0 0]"
  by (simp add: data_frame_data_def SIM_PADDING_LENGTH_def py_slice_from_neg)

text \<open>
  Claim C5. For a historical series of at least \<open>P = SIM_PADDING_LENGTH\<close> counts and \<open>H\<close>
  predictions, the series of the frame has \<open>P + H + 1\<close> entries, its last entry is \<open>[0, 0]\<close>,
  its first \<open>P\<close> entries are the last \<open>P\<close> historical counts in their order, each paired with
  0, and the frame is tagged \<open>(P, 0)\<close>.
\<close>

theorem assembled_series_shape:
  assumes "SIM_PADDING_LENGTH \<le> int (length sorted_referral_data)"
  shows "int (length (df_data (build_data_frame ivs sorted_referral_data predictions)))
           = SIM_PADDING_LENGTH + int (length predictions) + 1
       \<and> last (df_data (build_data_frame ivs sorted_referral_data predictions)) = IntPair 0 0
       \<and> take (nat SIM_PADDING_LENGTH)
              (df_data (build_data_frame ivs sorted_referral_data predictions))
           = map (\<lambda>arrivals. IntPair arrivals 0)
               (drop (length sorted_referral_data - nat SIM_PADDING_LENGTH) sorted_referral_data)
       \<and> df_padding (build_data_frame ivs sorted_referral_data predictions)
           = (SIM_PADDING_LENGTH, 0)"
proof -
  let ?pad = "map (\<lambda>arrivals. IntPair arrivals 0)
                (drop (length sorted_referral_data - 7) sorted_referral_data)"
  have d: "df_data (build_data_frame ivs sorted_referral_data predictions)
             = ?pad @ map NdRow predictions @ [IntPair 0 0]"
    using assms by (simp add: build_data_frame_def data_frame_data_eq)
  have l: "length ?pad = 7"
    using assms by (simp add: SIM_PADDING_LENGTH_def)
  have 1: "int (length (?pad @ map NdRow predictions @ [IntPair 0 0]))
             = SIM_PADDING_LENGTH + int (length predictions) + 1"
    using l by (simp add: SIM_PADDING_LENGTH_def)
  have 2: "last (?pad @ map NdRow predictions @ [IntPair 0 0]) = IntPair 0 0"
    by simp
  have 3: "take (nat SIM_PADDING_LENGTH) (?pad @ map NdRow predictions @ [IntPair 0 0]) = ?pad"
    using l by (simp add: SIM_PADDING_LENGTH_def)
  have 4: "df_padding (build_data_frame ivs sorted_referral_data predictions)
             = (SIM_PADDING_LENGTH, 0)"
    by (simp add: build_data_frame_def)
  show ?thesis
    unfolding d using 1 2 3 4 by (simp add: SIM_PADDING_LENGTH_def)
qed

theorem assembled_series_shape_witness:
  "SIM_PADDING_LENGTH \<le> int (length (8 # week_counts))
   \<and> int (length (df_data (build_data_frame [] (8 # week_counts) [[Finite 3, Finite 7]])))
       = SIM_PADDING_LENGTH + int (length [[Finite 3, Finite 7]]) + 1
   \<and> last (df_data (build_data_frame [] (8 # week_counts) [[Finite 3, Finite 7]])) = IntPair 0 0
   \<and> take (nat SIM_PADDING_LENGTH)
          (df_data (build_data_frame [] (8 # week_counts) [[Finite 3, Finite 7]]))
       = map (\<lambda>arrivals. IntPair arrivals 0)
           (drop (length (8 # week_counts) - nat SIM_PADDING_LENGTH) (8 # week_counts))
   \<and> df_padding (build_data_frame [] (8 # week_counts) [[Finite 3, Finite 7]])
       = (SIM_PADDING_LENGTH, 0)"
proof -
  have h: "SIM_PADDING_LENGTH \<le> int (length (8 # week_counts))"
    by (simp add: SIM_PADDING_LENGTH_def week_counts_def)
  from assembled_series_shape[OF h, of "[]" "[[Finite 3, Finite 7]]"] h show ?thesis
    by blast
qed

text \<open>
  Claim C3. Every forecast entry of the assembled series should be a pair
  \<open>[predicted_count, 0]\<close>. With a model that emits 7 on its second channel, the entry after
  the seven padding entries is the model's row, whose second component is 7.
\<close>

theorem forecast_entry_counterexample:
  "get_predictions stub_model week_counts feb_27 1 = Inr [[Finite (13 / 2), Finite 7]]
   \<and> data_frame_data week_counts [[Finite (13 / 2), Finite 7]] ! 7
       = NdRow [Finite (13 / 2), Finite 7]
   \<and> [Finite (13 / 2), Finite 7] ! 1 \<noteq> Finite 0"
  by (simp add: get_predictions_def gp_body_def stub_model_def feb_27_def one_hot_date_ok
        getitem_def py_index_def py_int_def py_slice_from_1 week_counts_def
        data_frame_data_def SIM_PADDING_LENGTH_def py_slice_from_neg)

text \<open>
  Claim C3, as the source has it. The forecast entries are the rows \<^verbatim>\<open>prediction[0]\<close> of the
  model outputs, appended unchanged: entry \<open>i\<close> after the padding is the first row of what
  the model returned on the window and the calendar feature of day \<open>i\<close>. Only the padding
  entries and the final entry carry a 0 written by the controller.
\<close>

theorem forecast_entries_are_model_rows:
  assumes "get_predictions model data start_date H = Inr predictions"
      and "i < length predictions"
  shows "data_frame_data sorted_referral_data predictions
           ! (length (py_slice_from (- SIM_PADDING_LENGTH) sorted_referral_data) + i)
           = NdRow (predictions ! i)
       \<and> (\<exists>w ps d one_hot prediction.
             gp_loop model start_date (data, []) [0..<i] = Inr (w, ps) \<and>
             add_days start_date i = Inr d \<and> one_hot_date d = Inr one_hot \<and>
             model w one_hot = Some prediction \<and>
             getitem prediction 0 = Inr (predictions ! i))"
proof -
  from assms(1) obtain wf where
    l: "gp_loop model start_date (data, []) [0..<nat H] = Inr (wf, predictions)"
    by (auto simp: get_predictions_Inr)
  from gp_loop_predictions[OF l] have n: "length predictions = nat H" by auto
  with assms(2) have "Suc i \<le> nat H" by simp
  from gp_loop_prefix[OF l this] obtain w1 ps1 where
    l1: "gp_loop model start_date (data, []) [0..<Suc i] = Inr (w1, ps1)" and
    l2: "gp_loop model start_date (w1, ps1) [Suc i..<nat H] = Inr (wf, predictions)"
    by (metis surj_pair)
  from gp_loop_prefix[OF l1, of i] obtain w ps where
    l0: "gp_loop model start_date (data, []) [0..<i] = Inr (w, ps)"
    by (metis le_add2 plus_1_eq_Suc surj_pair)
  with l1 have b: "gp_body model start_date (w, ps) i = Inr (w1, ps1)"
    by (simp add: gp_loop_append bind_res_Inr_iff)
  from gp_body_Inr[OF b] obtain d one_hot prediction row where
    *: "add_days start_date i = Inr d" "one_hot_date d = Inr one_hot"
       "model w one_hot = Some prediction" "getitem prediction 0 = Inr row"
       "ps1 = ps @ [row]"
    by blast
  from gp_loop_predictions[OF l0] have "length ps = i" by auto
  moreover from gp_loop_predictions[OF l2] obtain qs where "predictions = ps1 @ qs" by blast
  ultimately have r: "predictions ! i = row"
    using *(5) by (simp add: nth_append)
  have "data_frame_data sorted_referral_data predictions
           ! (length (py_slice_from (- SIM_PADDING_LENGTH) sorted_referral_data) + i)
           = NdRow (predictions ! i)"
    using assms(2) by (simp add: data_frame_data_def nth_append)
  with l0 * r show ?thesis by blast
qed

theorem forecast_entries_are_model_rows_witness:
  "get_predictions stub_model week_counts feb_27 2
     = Inr [[Finite (13 / 2), Finite 7], [Finite (17 / 2), Finite 7]]
   \<and> 1 < length [[Finite (13 / 2), Finite 7], [Finite (17 / 2), Finite 7]]
   \<and> data_frame_data week_counts [[Finite (13 / 2), Finite 7], [Finite (17 / 2), Finite 7]]
           ! (length (py_slice_from (- SIM_PADDING_LENGTH) week_counts) + 1)
           = NdRow ([[Finite (13 / 2), Finite 7], [Finite (17 / 2), Finite 7]] ! 1)
   \<and> (\<exists>w ps d one_hot prediction.
             gp_loop stub_model feb_27 (week_counts, []) [0..<1] = Inr (w, ps) \<and>
             add_days feb_27 1 = Inr d \<and> one_hot_date d = Inr one_hot \<and>
             stub_model w one_hot = Some prediction \<and>
             getitem prediction 0
               = Inr ([[Finite (13 / 2), Finite 7], [Finite (17 / 2), Finite 7]] ! 1))"
proof -
  have h1: "get_predictions stub_model week_counts feb_27 2
              = Inr [[Finite (13 / 2), Finite 7], [Finite (17 / 2), Finite 7]]"
    by (simp add: get_predictions_def numeral_2_eq_2 gp_body_def stub_model_def feb_27_def
          one_hot_date_ok getitem_def py_index_def py_int_def py_slice_from_1 week_counts_def
          next_day_def days_in_month_def is_leap_def)
  have h2: "1 < length [[Finite (13 / 2), Finite 7], [Finite (17 / 2), Finite 7]]"
    by simp
  from forecast_entries_are_model_rows[OF h1 h2, of week_counts] h1 h2 show ?thesis
    by blast
qed

subsection \<open>Evaluating dates\<close>

lemma add_days_numeral:
  "add_days d (numeral n) = bind_res (next_day d) (\<lambda>d'. add_days d' (pred_numeral n))"
  by (simp add: numeral_eq_Suc)

lemma add_days_1: "add_days d 1 = next_day d"
  by (cases "next_day d") simp_all

lemma sub_days_numeral:
  "sub_days d (numeral n) = bind_res (prev_day d) (\<lambda>d'. sub_days d' (pred_numeral n))"
  by (simp add: numeral_eq_Suc)

lemma ex_start: "sub_days \<lparr>year = 2020, month = 2, day = 27\<rparr> 30 = Inr \<lparr>year = 2020, month = 1, day = 28\<rparr>"
  by (simp add: sub_days_numeral prev_day_def days_in_month_def is_leap_def MINYEAR_def)

lemma ex_end: "add_days \<lparr>year = 2020, month = 1, day = 28\<rparr> 30 = Inr \<lparr>year = 2020, month = 2, day = 27\<rparr>"
  by (simp add: add_days_numeral next_day_def days_in_month_def is_leap_def MAXYEAR_def)

lemma decimal_2020: "decimal 2020 = ''2020''"
  by (simp add: decimal.simps digit_char_def)

lemma strftime_999: "strftime \<lparr>year = 999, month = 12, day = 31\<rparr> = ''999-12-31''"
  by (simp add: strftime_def decimal.simps digit_char_def)

lemma strftime_5: "strftime \<lparr>year = 5, month = 1, day = 1\<rparr> = ''5-01-01''"
  by (simp add: strftime_def decimal.simps digit_char_def)

lemma ex_strftime: "strftime \<lparr>year = 2020, month = 2, day = 27\<rparr> = ''2020-02-27''"
  by (simp add: strftime_def decimal_2020 digit_char_def)

lemma upt_30: "[0..<30] = [0, 1, 2, 3, 4, 5, 6, 7, 8, 9, 10, 11, 12, 13, 14, 15, 16, 17, 18, 19,
                            20, 21, 22, 23, 24, 25, 26, 27, 28, 29 :: nat]"
  by (simp add: upt_conv_Cons)

lemma ex_dates: "date_list \<lparr>year = 2020, month = 1, day = 28\<rparr> 30 = Inr
  [''2020-01-28'', ''2020-01-29'', ''2020-01-30'', ''2020-01-31'', ''2020-02-01'', ''2020-02-02'',
   ''2020-02-03'', ''2020-02-04'', ''2020-02-05'', ''2020-02-06'', ''2020-02-07'', ''2020-02-08'',
   ''2020-02-09'', ''2020-02-10'', ''2020-02-11'', ''2020-02-12'', ''2020-02-13'', ''2020-02-14'',
   ''2020-02-15'', ''2020-02-16'', ''2020-02-17'', ''2020-02-18'', ''2020-02-19'', ''2020-02-20'',
   ''2020-02-21'', ''2020-02-22'', ''2020-02-23'', ''2020-02-24'', ''2020-02-25'', ''2020-02-26'']"
  by (simp add: date_list_def upt_30 add_days_numeral add_days_1 next_day_def days_in_month_def
        is_leap_def MAXYEAR_def strftime_def decimal_2020 digit_char_def)

lemma ex_sort: "sort_referral_data example_referrals \<lparr>year = 2020, month = 1, day = 28\<rparr> 30
   = Inr [0, 0, 0, 0, 0, 0, 0, 0, 0, 0, 0, 0, 0, 0, 0, 0, 0, 0, 0, 0, 0, 0, 0, 1, 0, 0, 0, 0, 0, 2]"
  by (simp add: sort_referral_data_def ex_dates Counter_def example_referrals_def received_def)

subsection \<open>The example clinic\<close>

lemma ex_days_between:
  "days_between \<lparr>year = 2021, month = 2, day = 28\<rparr>
     \<lparr>year = 2021, month = 2, day = 27\<rparr> = 1"
  by (simp add: days_between_def toordinal_def)

lemma ex_setup:
  "predict_setup example_env example_controller []
     = (Inr (feb_27, 2, example_interval, 30, [urgent, routine]),
        [DbSelectYear 2 27, ClinicDataInit 1])"
  by (simp add: predict_setup_def example_env_def example_controller_def io_bind_def io_lift_def
        io_call_def io_return_def getitem_def py_index_def parse_date_def example_strptime_def
        ex_days_between get_historic_data_year_def io_raise_def feb_27_def
        ML_PADDING_LENGTH_def SIM_PADDING_LENGTH_def replace_year_def valid_date_def
        MINYEAR_def MAXYEAR_def days_in_month_def is_leap_def ex_start example_interval_def)

lemma ex_predictions:
  "get_predictions stub_model
     [0, 0, 0, 0, 0, 0, 0, 0, 0, 0, 0, 0, 0, 0, 0, 0, 0, 0, 0, 0, 0, 0, 0, 1, 0, 0, 0, 0, 0, 2]
     feb_27 2 = Inr [[Finite (3 / 2), Finite 7], [Finite 2, Finite 7]]"
  by (simp add: get_predictions_def numeral_2_eq_2 gp_body_def stub_model_def feb_27_def
        one_hot_date_ok getitem_def py_index_def py_int_def py_slice_from_1
        next_day_def days_in_month_def is_leap_def)

lemma ex_urgent:
  "predict_class example_env example_controller feb_27 2 example_interval 30 [] urgent
     [DbSelectYear 2 27, ClinicDataInit 1]
   = (Inr [(''urgent'', [\<lparr>slots = 4, pr_start_date = ''2021-02-27'', pr_end_date = ''2021-02-28''\<rparr>])],
      [DbSelectYear 2 27, ClinicDataInit 1,
       GetReferralData 1 1 example_interval, DbSelectModel 1 1, LoadModel ''urgent_a.h5'',
       GenMinIntervalSlots,
       Print [(''urgent'', [\<lparr>slots = 4, pr_start_date = ''2021-02-27'', pr_end_date = ''2021-02-28''\<rparr>])]])"
  by (simp add: predict_class_def example_env_def example_controller_def urgent_def
        io_bind_def io_lift_def io_call_def io_return_def io_raise_def get_model_def
        example_select_models_def getitem_def py_index_def
        example_interval_def ex_sort ML_PADDING_LENGTH_def py_slice_from_neg ex_predictions
        Let_def)

lemma ex_routine:
  "predict_class example_env example_controller feb_27 2 example_interval 30 response routine trace
   = (Inl MissingModel, trace @ [GetReferralData 1 2 example_interval, DbSelectModel 1 2])"
  by (simp add: predict_class_def example_env_def example_controller_def routine_def
        io_bind_def io_lift_def io_call_def io_raise_def get_model_def
        example_select_models_def example_interval_def ex_sort)

subsection \<open>Model lookup\<close>

lemma io_bind_Inr:
  "m trace = (Inr x, trace') \<Longrightarrow> io_bind m f trace = f x trace'"
  by (simp add: io_bind_def)

lemma io_bind_Inl:
  "m trace = (Inl e, trace') \<Longrightarrow> io_bind m f trace = (Inl e, trace')"
  by (simp add: io_bind_def)

lemma predict_classes_append:
  "predict_classes env self psd pil hdi hdil response (xs @ ys) =
     io_bind (predict_classes env self psd pil hdi hdil response xs)
       (\<lambda>response'. predict_classes env self psd pil hdi hdil response' ys)"
proof (induction xs arbitrary: response)
  case Nil
  show ?case by (simp add: io_bind_def io_return_def)
next
  case (Cons x xs)
  show ?case
    by (simp add: Cons.IH io_bind_def fun_eq_iff split: prod.splits sum.splits)
qed

lemma getitem_Nil: "getitem [] i = Inl IndexError"
  by (simp add: getitem_def py_index_def)

lemma getitem_0: "xs \<noteq> [] \<Longrightarrow> getitem xs 0 = Inr (hd xs)"
  by (cases xs) (simp_all add: getitem_def py_index_def)

text \<open>
  Claim C2. The lookup should fail exactly when the number of matching active models is
  not one. With two active models registered for a class it does not fail: the model of
  the first row is loaded.
\<close>

theorem two_active_models_counterexample:
  "select_models example_env 1 (severity urgent) True = Some [''urgent_a.h5'', ''urgent_b.h5'']
   \<and> length [''urgent_a.h5'', ''urgent_b.h5''] \<noteq> 1
   \<and> get_model example_env 1 urgent [] =
        (Inr stub_model, [DbSelectModel 1 1, LoadModel ''urgent_a.h5''])"
  by (simp add: example_env_def example_select_models_def urgent_def get_model_def io_bind_def
        io_call_def io_lift_def getitem_def py_index_def)

text \<open>
  Claim C2, as the source has it. When the query returns its rows, \<^verbatim>\<open>get_model\<close> raises the
  missing-model error if and only if there is no row. With one row or more it loads the
  file of the first row, and fails only if loading fails.
\<close>

theorem get_model_missing_iff:
  assumes "select_models env cid (severity tc) True = Some rows"
  shows "(fst (get_model env cid tc trace) = Inl MissingModel \<longleftrightarrow> length rows = 0)
       \<and> (rows \<noteq> [] \<longrightarrow>
            get_model env cid tc trace =
              (case load_model env (hd rows) of None \<Rightarrow> Inl UpstreamFailure | Some m \<Rightarrow> Inr m,
               trace @ [DbSelectModel cid (severity tc), LoadModel (hd rows)]))"
proof (cases rows)
  case Nil
  with assms show ?thesis
    by (simp add: get_model_def io_bind_def io_call_def io_raise_def)
next
  case (Cons r rs)
  with assms show ?thesis
    by (simp add: get_model_def io_bind_def io_call_def io_lift_def getitem_0
          split: option.splits)
qed

theorem get_model_missing_iff_witness:
  "select_models example_env 1 (severity urgent) True = Some [''urgent_a.h5'', ''urgent_b.h5'']
   \<and> (fst (get_model example_env 1 urgent []) = Inl MissingModel
        \<longleftrightarrow> length [''urgent_a.h5'', ''urgent_b.h5''] = 0)
   \<and> get_model example_env 1 urgent [] =
        (Inr stub_model, [DbSelectModel 1 1, LoadModel ''urgent_a.h5''])"
proof -
  have h: "select_models example_env 1 (severity urgent) True
             = Some [''urgent_a.h5'', ''urgent_b.h5'']"
    by (simp add: example_env_def example_select_models_def urgent_def)
  from get_model_missing_iff[OF h, of "[]"] h show ?thesis
    by (simp add: example_env_def urgent_def)
qed

subsection \<open>The run over the triage classes\<close>

text \<open>
  Claim C10. With an empty list of intervals, \<^verbatim>\<open>predict\<close> raises \<^verbatim>\<open>IndexError\<close> at
  \<^verbatim>\<open>self.intervals[0][0]\<close> and returns no response; the trace of outside calls is as it was,
  so no query, model load or simulation has happened.
\<close>

theorem predict_empty_intervals:
  "predict env (self\<lparr>intervals := []\<rparr>) trace = (Inl IndexError, trace)"
  by (simp add: predict_def predict_setup_def io_bind_def io_lift_def getitem_Nil)

text \<open>
  Claim C9. If the classes before \<open>tc\<close> in the clinic's order are processed and \<open>tc\<close> fails
  with \<open>e\<close>, then \<^verbatim>\<open>predict\<close> ends with \<open>e\<close> and no response, and its trace ends where \<open>tc\<close> failed:
  the classes after \<open>tc\<close> are not touched. In the example the second class has no active
  model; the response of the first class was printed, and is not returned.
\<close>

theorem predict_aborts_on_failing_class:
  assumes "predict_setup env self trace = (Inr (psd, pil, hdi, hdil, pre @ tc # post), trace0)"
      and "predict_classes env self psd pil hdi hdil [] pre trace0 = (Inr response, trace1)"
      and "predict_class env self psd pil hdi hdil response tc trace1 = (Inl e, trace2)"
  shows "predict env self trace = (Inl e, trace2)"
proof -
  have "predict_classes env self psd pil hdi hdil [] (pre @ tc # post) trace0 = (Inl e, trace2)"
    using assms(2,3) by (simp add: predict_classes_append io_bind_def)
  with assms(1) show ?thesis
    by (simp add: predict_def io_bind_def)
qed

theorem predict_aborts_on_failing_class_witness:
  "predict_setup example_env example_controller []
     = (Inr (feb_27, 2, example_interval, 30, [urgent] @ routine # []),
        [DbSelectYear 2 27, ClinicDataInit 1])
   \<and> predict_classes example_env example_controller feb_27 2 example_interval 30 [] [urgent]
       [DbSelectYear 2 27, ClinicDataInit 1]
     = (Inr [(''urgent'', [\<lparr>slots = 4, pr_start_date = ''2021-02-27'',
                            pr_end_date = ''2021-02-28''\<rparr>])],
        [DbSelectYear 2 27, ClinicDataInit 1,
         GetReferralData 1 1 example_interval, DbSelectModel 1 1, LoadModel ''urgent_a.h5'',
         GenMinIntervalSlots,
         Print [(''urgent'', [\<lparr>slots = 4, pr_start_date = ''2021-02-27'',
                                pr_end_date = ''2021-02-28''\<rparr>])]])
   \<and> predict example_env example_controller []
     = (Inl MissingModel,
        [DbSelectYear 2 27, ClinicDataInit 1,
         GetReferralData 1 1 example_interval, DbSelectModel 1 1, LoadModel ''urgent_a.h5'',
         GenMinIntervalSlots,
         Print [(''urgent'', [\<lparr>slots = 4, pr_start_date = ''2021-02-27'',
                                pr_end_date = ''2021-02-28''\<rparr>])],
         GetReferralData 1 2 example_interval, DbSelectModel 1 2])"
proof -
  let ?r = "[(''urgent'', [\<lparr>slots = 4, pr_start_date = ''2021-02-27'',
                            pr_end_date = ''2021-02-28''\<rparr>])]"
  let ?t0 = "[DbSelectYear 2 27, ClinicDataInit 1]"
  let ?t1 = "?t0 @ [GetReferralData 1 1 example_interval, DbSelectModel 1 1,
                    LoadModel ''urgent_a.h5'', GenMinIntervalSlots, Print ?r]"
  let ?t2 = "?t1 @ [GetReferralData 1 2 example_interval, DbSelectModel 1 2]"
  have h1: "predict_setup example_env example_controller []
              = (Inr (feb_27, 2, example_interval, 30, [urgent] @ routine # []), ?t0)"
    by (simp add: ex_setup)
  have h2: "predict_classes example_env example_controller feb_27 2 example_interval 30 []
              [urgent] ?t0 = (Inr ?r, ?t1)"
    by (simp add: io_bind_def ex_urgent io_return_def)
  have h3: "predict_class example_env example_controller feb_27 2 example_interval 30 ?r
              routine ?t1 = (Inl MissingModel, ?t2)"
    by (rule ex_routine)
  from predict_aborts_on_failing_class[OF h1 h2 h3] h1 h2 show ?thesis
    by simp
qed

subsection \<open>The daily series\<close>

lemma Counter_fold:
  "foldl (\<lambda>c k. c(k \<mapsto> (case c k of None \<Rightarrow> 1 | Some n \<Rightarrow> n + 1))) c ks k =
     (case c k of
        None \<Rightarrow> if k \<in> set ks then Some (int (count_list ks k)) else None
      | Some n \<Rightarrow> Some (n + int (count_list ks k)))"
proof -
  define step :: "('a \<rightharpoonup> int) \<Rightarrow> 'a \<Rightarrow> ('a \<rightharpoonup> int)"
    where "step = (\<lambda>c k. c(k \<mapsto> (case c k of None \<Rightarrow> 1 | Some n \<Rightarrow> n + 1)))"
  have "foldl step c ks k =
     (case c k of
        None \<Rightarrow> if k \<in> set ks then Some (int (count_list ks k)) else None
      | Some n \<Rightarrow> Some (n + int (count_list ks k)))"
  proof (induction ks arbitrary: c)
    case Nil
    show ?case by (simp split: option.splits)
  next
    case (Cons x xs)
    have "foldl step c (x # xs) k = foldl step (step c x) xs k" by simp
    also have "\<dots> = (case step c x k of
        None \<Rightarrow> if k \<in> set xs then Some (int (count_list xs k)) else None
      | Some n \<Rightarrow> Some (n + int (count_list xs k)))"
      by (rule Cons.IH)
    also have "\<dots> = (case c k of
        None \<Rightarrow> if k \<in> set (x # xs) then Some (int (count_list (x # xs) k)) else None
      | Some n \<Rightarrow> Some (n + int (count_list (x # xs) k)))"
      by (simp add: step_def split: option.splits)
    finally show ?case .
  qed
  then show ?thesis by (simp add: step_def)
qed

lemma Counter_eq:
  "Counter ks k = (if k \<in> set ks then Some (int (count_list ks k)) else None)"
  by (simp add: Counter_def Counter_fold)

lemma Counter_lookup:
  "(case Counter ks k of Some n \<Rightarrow> n | None \<Rightarrow> 0) = int (count_list ks k)"
  by (simp add: Counter_eq)

lemma count_list_filter: "count_list (map f rs) k = length (filter (\<lambda>r. f r = k) rs)"
  by (induction rs) simp_all

lemma sequence_res_map:
  "\<forall>x\<in>set xs. f x = Inr (g x) \<Longrightarrow> sequence_res (map f xs) = Inr (map g xs)"
  by (induction xs) simp_all

lemma add_days_add:
  "add_days d (i + j) = bind_res (add_days d i) (\<lambda>d'. add_days d' j)"
proof (induction i arbitrary: d)
  case 0
  show ?case by simp
next
  case (Suc i)
  show ?case by (cases "next_day d") (simp_all add: Suc.IH)
qed

lemma add_days_prefix:
  assumes "add_days d n = Inr e" "i \<le> n"
  shows "\<exists>d'. add_days d i = Inr d' \<and> add_days d' (n - i) = Inr e"
proof -
  from assms(2) have "n = i + (n - i)" by simp
  with assms(1) have "add_days d (i + (n - i)) = Inr e" by simp
  then show ?thesis by (simp add: add_days_add bind_res_Inr_iff)
qed

lemma days_in_month_bounds: "28 \<le> days_in_month y m" "days_in_month y m \<le> 31"
  by (simp_all add: days_in_month_def)

lemma next_day_valid:
  assumes "valid_date d" "next_day d = Inr d'"
  shows "valid_date d'"
  using assms days_in_month_bounds[of "year d" "month d + 1"]
  by (auto simp: valid_date_def next_day_def MINYEAR_def MAXYEAR_def split: if_splits)
     (simp_all add: days_in_month_def)

lemma next_day_increases:
  assumes "valid_date d" "next_day d = Inr d'"
  shows "year d * 10000 + month d * 100 + day d < year d' * 10000 + month d' * 100 + day d'"
  using assms days_in_month_bounds[of "year d" "month d"]
  by (auto simp: valid_date_def next_day_def split: if_splits)

lemma add_days_valid:
  "valid_date d \<Longrightarrow> add_days d n = Inr e \<Longrightarrow> valid_date e"
proof (induction n arbitrary: d)
  case 0
  then show ?case by simp
next
  case (Suc n)
  then show ?case by (auto simp: bind_res_Inr_iff dest: next_day_valid)
qed

lemma add_days_increases:
  "valid_date d \<Longrightarrow> add_days d n = Inr e \<Longrightarrow> 0 < n \<Longrightarrow>
     year d * 10000 + month d * 100 + day d < year e * 10000 + month e * 100 + day e"
proof (induction n arbitrary: d)
  case 0
  then show ?case by simp
next
  case (Suc n)
  from Suc.prems obtain d1 where
    n: "next_day d = Inr d1" and a: "add_days d1 n = Inr e"
    by (auto simp: bind_res_Inr_iff)
  from next_day_valid[OF Suc.prems(1) n] have v: "valid_date d1" .
  show ?case
  proof (cases n)
    case 0
    with a n Suc.prems(1) show ?thesis by (simp add: next_day_increases)
  next
    case (Suc k)
    with Suc.IH[OF v a] next_day_increases[OF Suc.prems(1) n] show ?thesis by simp
  qed
qed

lemma add_days_inj:
  assumes "valid_date d" "add_days d i = Inr a" "add_days d j = Inr a" 
  shows "i = j"
proof -
  have less: "\<And>i j a b. i < j \<Longrightarrow> add_days d i = Inr a \<Longrightarrow> add_days d j = Inr b \<Longrightarrow> a \<noteq> b"
  proof -
    fix i j :: nat and a b
    assume ij: "i < j" and ai: "add_days d i = Inr a" and bj: "add_days d j = Inr b"
    from add_days_prefix[OF bj, of i] ij ai have s: "add_days a (j - i) = Inr b" by simp
    from add_days_valid[OF assms(1) ai] have "valid_date a" .
    from add_days_increases[OF this s] ij show "a \<noteq> b" by auto
  qed
  show ?thesis
  proof (rule ccontr)
    assume "i \<noteq> j"
    then consider "i < j" | "j < i" by linarith
    then show False
      using less assms(2,3) by cases blast+
  qed
qed

lemma digit_char_eq_iff: "digit_char m = digit_char n \<longleftrightarrow> m mod 10 = n mod 10"
proof -
  have d: "distinct ''0123456789''" by simp
  have "m mod 10 < length ''0123456789''" "n mod 10 < length ''0123456789''"
    by simp_all
  from nth_eq_iff_index_eq[OF d this] show ?thesis
    by (simp only: digit_char_def)
qed

lemma decimal_not_Nil: "decimal n \<noteq> []" "[] \<noteq> decimal n"
  by (subst decimal.simps, simp)+

lemma decimal_inj: "decimal m = decimal n \<Longrightarrow> m = n"
proof (induction m arbitrary: n rule: decimal.induct)
  case (1 m)
  show ?case
  proof (cases "m < 10")
    case m: True
    show ?thesis
    proof (cases "n < 10")
      case True
      with m "1.prems" have "digit_char m = digit_char n"
        by (simp add: decimal.simps[of m] decimal.simps[of n])
      with m True show ?thesis by (simp add: digit_char_eq_iff)
    next
      case False
      with m "1.prems" have "[digit_char m] = decimal (n div 10) @ [digit_char n]"
        by (simp add: decimal.simps[of m] decimal.simps[of n])
      then show ?thesis by (simp add: decimal_not_Nil)
    qed
  next
    case m: False
    show ?thesis
    proof (cases "n < 10")
      case True
      with m "1.prems" have "decimal (m div 10) @ [digit_char m] = [digit_char n]"
        by (simp add: decimal.simps[of m] decimal.simps[of n])
      then show ?thesis by (simp add: decimal_not_Nil)
    next
      case False
      with m "1.prems" have "decimal (m div 10) @ [digit_char m]
                               = decimal (n div 10) @ [digit_char n]"
        by (simp add: decimal.simps[of m] decimal.simps[of n])
      then have e: "decimal (m div 10) = decimal (n div 10)" "digit_char m = digit_char n"
        by simp_all
      from "1.IH"[OF m e(1)] have "m div 10 = n div 10" .
      moreover from e(2) have "m mod 10 = n mod 10" by (simp add: digit_char_eq_iff)
      ultimately show ?thesis by (metis div_mult_mod_eq)
    qed
  qed
qed

lemma two_digits_inj:
  fixes a b :: nat
  assumes "a < 100" "b < 100"
      and "(a div 10) mod 10 = (b div 10) mod 10" "a mod 10 = b mod 10"
  shows "a = b"
proof -
  from assms(1) have a: "(a div 10) mod 10 = a div 10" by simp
  from assms(2) have b: "(b div 10) mod 10 = b div 10" by simp
  from assms(3) a b have "a div 10 = b div 10" by simp
  with assms(4) show ?thesis
    by (metis div_mult_mod_eq)
qed

lemma strftime_parts:
  assumes "strftime a = strftime b"
  shows "decimal (nat (year a)) = decimal (nat (year b))"
    "(nat (month a) div 10) mod 10 = (nat (month b) div 10) mod 10"
    "nat (month a) mod 10 = nat (month b) mod 10"
    "(nat (day a) div 10) mod 10 = (nat (day b) div 10) mod 10"
    "nat (day a) mod 10 = nat (day b) mod 10"
  using assms by (simp_all add: strftime_def Let_def digit_char_eq_iff)

lemma strftime_inj:
  assumes "valid_date a" "valid_date b" "strftime a = strftime b"
  shows "a = b"
proof -
  from assms(1) have ra: "1 \<le> year a" "1 \<le> month a" "month a \<le> 12" "1 \<le> day a" "day a \<le> 31"
    using days_in_month_bounds(2)[of "year a" "month a"]
    by (simp_all add: valid_date_def MINYEAR_def)
  from assms(2) have rb: "1 \<le> year b" "1 \<le> month b" "month b \<le> 12" "1 \<le> day b" "day b \<le> 31"
    using days_in_month_bounds(2)[of "year b" "month b"]
    by (simp_all add: valid_date_def MINYEAR_def)
  note e = strftime_parts[OF assms(3)]
  from e(1) have "nat (year a) = nat (year b)"
    by (rule decimal_inj)
  moreover have "nat (month a) < 100" "nat (month b) < 100" using ra rb by simp_all
  then have "nat (month a) = nat (month b)"
    using e(2,3) by (rule two_digits_inj)
  moreover have "nat (day a) < 100" "nat (day b) < 100" using ra rb by simp_all
  then have "nat (day a) = nat (day b)"
    using e(4,5) by (rule two_digits_inj)
  ultimately have "year a = year b" "month a = month b" "day a = day b"
    using ra rb by simp_all
  then show ?thesis by simp
qed

lemma sum_indicator_distinct:
  "distinct labels \<Longrightarrow>
     (\<Sum>l\<leftarrow>labels. (if k = l then 1 else 0 :: int)) = (if k \<in> set labels then 1 else 0)"
  by (induction labels) auto

lemma sum_count_distinct:
  assumes "distinct labels"
  shows "(\<Sum>l\<leftarrow>labels. int (count_list ks l)) = int (length (filter (\<lambda>k. k \<in> set labels) ks))"
proof (induction ks)
  case Nil
  show ?case by simp
next
  case (Cons k ks)
  have "(\<Sum>l\<leftarrow>labels. int (count_list (k # ks) l))
          = (\<Sum>l\<leftarrow>labels. int (count_list ks l) + (if k = l then 1 else 0))"
    by (rule arg_cong[where f=sum_list], rule map_cong) simp_all
  also have "\<dots> = (\<Sum>l\<leftarrow>labels. int (count_list ks l))
                    + (\<Sum>l\<leftarrow>labels. (if k = l then 1 else 0))"
    by (rule sum_list_addf)
  finally show ?case
    using Cons.IH sum_indicator_distinct[OF assms, of k] by simp
qed

lemma sequence_res_length:
  "sequence_res rs = Inr xs \<Longrightarrow> length xs = length rs"
  by (induction rs arbitrary: xs) (auto simp: bind_res_Inr_iff)

lemma sort_referral_data_length:
  "sort_referral_data referral_data start_date L = Inr series \<Longrightarrow> length series = nat L"
  by (auto simp: sort_referral_data_def date_list_def bind_res_Inr_iff Let_def
        dest: sequence_res_length)

lemma window_days:
  assumes "add_days s (n - 1) = Inr e"
  shows "\<forall>i<n. \<exists>d. add_days s i = Inr d"
proof (intro allI impI)
  fix i assume "i < n"
  then have "i \<le> n - 1" by simp
  from add_days_prefix[OF assms this] show "\<exists>d. add_days s i = Inr d" by blast
qed

lemma date_list_eq:
  assumes "\<forall>i<nat L. \<exists>d. add_days s i = Inr d"
  shows "date_list s L = Inr (map (\<lambda>i. strftime (projr (add_days s i))) [0..<nat L])"
proof -
  have "\<forall>x\<in>set [0..<nat L].
          bind_res (add_days s x) (\<lambda>d. Inr (strftime d)) = Inr (strftime (projr (add_days s x)))"
  proof
    fix x assume "x \<in> set [0..<nat L]"
    then have "x < nat L" by simp
    with assms obtain d where "add_days s x = Inr d" by blast
    then show "bind_res (add_days s x) (\<lambda>d. Inr (strftime d))
                 = Inr (strftime (projr (add_days s x)))"
      by simp
  qed
  then show ?thesis
    unfolding date_list_def by (rule sequence_res_map)
qed

lemma date_list_distinct:
  assumes "valid_date s" "\<forall>i<nat L. \<exists>d. add_days s i = Inr d"
  shows "distinct (map (\<lambda>i. strftime (projr (add_days s i))) [0..<nat L])"
proof -
  have "inj_on (\<lambda>i. strftime (projr (add_days s i))) (set [0..<nat L])"
  proof (rule inj_onI)
    fix i j
    assume i: "i \<in> set [0..<nat L]" and j: "j \<in> set [0..<nat L]"
      and eq: "strftime (projr (add_days s i)) = strftime (projr (add_days s j))"
    from i j assms(2) obtain a b where
      a: "add_days s i = Inr a" and b: "add_days s j = Inr b"
      by (metis atLeastLessThan_iff set_upt)
    from add_days_valid[OF assms(1) a] add_days_valid[OF assms(1) b] eq a b
    have "a = b" by (simp add: strftime_inj)
    with a b show "i = j" using add_days_inj[OF assms(1)] by blast
  qed
  then show ?thesis by (simp add: distinct_map)
qed

text \<open>A window that ends on the last day of the calendar is counted.\<close>

lemma sort_referral_data_last_day:
  "sort_referral_data [(1, 1, ''9999-12-31'', ''9999-12-31'')]
     \<lparr>year = 9999, month = 12, day = 31\<rparr> 1 = Inr [1]"
  by (simp add: sort_referral_data_def date_list_def strftime_def decimal.simps digit_char_def
        Counter_def received_def)

text \<open>
  The days of a year below 1000 are printed without padding: a referral whose date is
  written with a padded year is not counted.
\<close>

lemma sort_referral_data_year_999:
  "sort_referral_data [(1, 1, ''0999-12-31'', ''0999-12-31'')]
     \<lparr>year = 999, month = 12, day = 30\<rparr> 2 = Inr [0, 0]"
  "sort_referral_data [(1, 1, ''999-12-31'', ''999-12-31'')]
     \<lparr>year = 999, month = 12, day = 30\<rparr> 2 = Inr [0, 1]"
  by (simp_all add: sort_referral_data_def date_list_def upt_conv_Cons numeral_2_eq_2
        next_day_def days_in_month_def strftime_def decimal.simps digit_char_def
        Counter_def received_def)

text \<open>
  Claim C7. The builder should return a series of length \<open>L\<close> for every anchor date and
  every \<open>L \<ge> 1\<close>, with no error on an empty list of referrals. A window of three days
  from 30 December 9999 leaves the calendar: the third date cannot be built, and the
  builder raises \<^verbatim>\<open>OverflowError\<close> even for an empty list.
\<close>

theorem sort_referral_data_overflow_counterexample:
  "sort_referral_data [] \<lparr>year = 9999, month = 12, day = 30\<rparr> 3 = Inl OverflowError"
  by (simp add: sort_referral_data_def date_list_def upt_conv_Cons numeral_3_eq_3
        next_day_def days_in_month_def MAXYEAR_def)

text \<open>
  Claim C7, as the source has it. Let the last day \<open>start + L - 1\<close> of a window of \<open>L \<ge> 1\<close>
  days exist in the calendar, which ends on 31 December 9999. Then, for every list of
  referrals, \<^verbatim>\<open>sort_referral_data\<close> returns a series of length \<open>L\<close> whose entry \<open>i\<close> is the number
  of referrals received on day \<open>start + i\<close>, whose sum is the number of referrals received
  on a day of the window, and which is all zero when there is no referral.
\<close>

theorem sort_referral_data_counts:
  assumes "valid_date start_date" and "1 \<le> L"
      and "add_days start_date (nat L - 1) = Inr last_day"
  shows "\<exists>series labels.
           sort_referral_data referral_data start_date L = Inr series
         \<and> date_list start_date L = Inr labels
         \<and> int (length series) = L \<and> int (length labels) = L
         \<and> (\<forall>i<nat L. \<exists>d. add_days start_date i = Inr d \<and> labels ! i = strftime d \<and>
               series ! i = int (length (filter (\<lambda>r. received r = strftime d) referral_data)))
         \<and> sum_list series
             = int (length (filter (\<lambda>r. received r \<in> set labels) referral_data))
         \<and> (referral_data = [] \<longrightarrow> series = replicate (nat L) 0)"
proof -
  define labels where "labels = map (\<lambda>i. strftime (projr (add_days start_date i))) [0..<nat L]"
  define series where
    "series = map (\<lambda>date. int (count_list (map received referral_data) date)) labels"
  note days = window_days[OF assms(3)]
  have dl: "date_list start_date L = Inr labels"
    unfolding labels_def by (rule date_list_eq[OF days])
  have srd: "sort_referral_data referral_data start_date L = Inr series"
    by (simp add: sort_referral_data_def dl Counter_lookup series_def)
  have len: "length labels = nat L" "length series = nat L"
    by (simp_all add: labels_def series_def)
  have nth: "\<forall>i<nat L. \<exists>d. add_days start_date i = Inr d \<and> labels ! i = strftime d \<and>
               series ! i = int (length (filter (\<lambda>r. received r = strftime d) referral_data))"
  proof (intro allI impI)
    fix i assume i: "i < nat L"
    with days obtain d where d: "add_days start_date i = Inr d"
      by blast
    with i have l: "labels ! i = strftime d" by (simp add: labels_def)
    with i len have "series ! i
        = int (length (filter (\<lambda>r. received r = strftime d) referral_data))"
      by (simp add: series_def count_list_filter)
    with d l show "\<exists>d. add_days start_date i = Inr d \<and> labels ! i = strftime d \<and>
               series ! i = int (length (filter (\<lambda>r. received r = strftime d) referral_data))"
      by blast
  qed
  have "distinct labels"
    unfolding labels_def by (rule date_list_distinct[OF assms(1) days])
  then have "sum_list series
      = int (length (filter (\<lambda>k. k \<in> set labels) (map received referral_data)))"
    unfolding series_def by (rule sum_count_distinct)
  also have "\<dots> = int (length (filter (\<lambda>r. received r \<in> set labels) referral_data))"
    by (simp add: filter_map comp_def)
  finally have sum: "sum_list series
      = int (length (filter (\<lambda>r. received r \<in> set labels) referral_data))" .
  have empty: "referral_data = [] \<longrightarrow> series = replicate (nat L) 0"
    using len(1) by (simp add: series_def map_replicate_const)
  from assms(2) len have "int (length series) = L" "int (length labels) = L" by simp_all
  with srd dl nth sum empty show ?thesis by blast
qed

theorem sort_referral_data_counts_witness:
  "valid_date \<lparr>year = 2020, month = 1, day = 28\<rparr>
   \<and> (1 :: int) \<le> 30
   \<and> add_days \<lparr>year = 2020, month = 1, day = 28\<rparr> (nat 30 - 1)
       = Inr \<lparr>year = 2020, month = 2, day = 26\<rparr>
   \<and> (\<exists>series labels.
           sort_referral_data example_referrals \<lparr>year = 2020, month = 1, day = 28\<rparr> 30
             = Inr series
         \<and> date_list \<lparr>year = 2020, month = 1, day = 28\<rparr> 30 = Inr labels
         \<and> int (length series) = 30 \<and> int (length labels) = 30
         \<and> (\<forall>i<nat 30. \<exists>d. add_days \<lparr>year = 2020, month = 1, day = 28\<rparr> i = Inr d \<and>
               labels ! i = strftime d \<and>
               series ! i
                 = int (length (filter (\<lambda>r. received r = strftime d) example_referrals)))
         \<and> sum_list series
             = int (length (filter (\<lambda>r. received r \<in> set labels) example_referrals))
         \<and> (example_referrals = [] \<longrightarrow> series = replicate (nat 30) 0))"
proof -
  have h1: "valid_date \<lparr>year = 2020, month = 1, day = 28\<rparr>"
    by (simp add: valid_date_def MINYEAR_def MAXYEAR_def days_in_month_def)
  have h2: "(1 :: int) \<le> 30"
    by simp
  have h3: "add_days \<lparr>year = 2020, month = 1, day = 28\<rparr> (nat 30 - 1)
              = Inr \<lparr>year = 2020, month = 2, day = 26\<rparr>"
    by (simp add: add_days_numeral next_day_def days_in_month_def is_leap_def MAXYEAR_def)
  from sort_referral_data_counts[OF h1 h2 h3, of example_referrals] h1 h3 show ?thesis
    by simp
qed

end
